theory Spec2Isabelle
  imports Complex_Main "HOL-Library.Word" "HOL-Library.Monad_Syntax"
begin

section \<open>Kernel normalizer\<close>

text \<open>
  Source: \<^verbatim>\<open>_odd\<close> in \<^verbatim>\<open>processors/edges.py\<close>.
  \<^verbatim>\<open>
  def _odd(v: int) -> int:
      v = int(v)
      return v if v % 2 == 1 else v + 1
  \<close>
  Python integers are unbounded and \<^verbatim>\<open>%\<close> rounds towards minus infinity, as
  \<open>mod\<close> on \<open>int\<close> does; \<^verbatim>\<open>int(v)\<close> is the identity on an integer.
\<close>

definition py_odd :: "int \<Rightarrow> int" where
  "py_odd v = (if v mod 2 = 1 then v else v + 1)"

section \<open>Rasters\<close>

text \<open>
  A raster is a rectangular grid of samples, kept as the list of its rows. An 8-bit
  sample is an \<open>8 word\<close>. A NumPy array of 8-bit samples is either two-dimensional
  (one channel) or three-dimensional with three interleaved channels; a pixel of the
  latter is the triple of its channel values in array order. A sample of a float32 array
  is a \<open>real\<close>; every result of a floating-point operation passes through the rounding
  function of its format, which is a parameter of the model (see below).
\<close>

type_synonym u8 = "8 word"
type_synonym 'a raster = "'a list list"
type_synonym pixel3 = "u8 \<times> u8 \<times> u8"

datatype ndarray = Gray "u8 raster" | Color "pixel3 raster"

fun ndim :: "ndarray \<Rightarrow> nat" where
  "ndim (Gray px) = 2"
| "ndim (Color px) = 3"

text \<open>A PIL image in one of the two 8-bit modes that occur here.\<close>

datatype pil_image = PIL_RGB "pixel3 raster" | PIL_L "u8 raster"

text \<open>\<^verbatim>\<open>img.convert("RGB")\<close>: the identity on an RGB image, a grey value is replicated.\<close>

fun convert_RGB :: "pil_image \<Rightarrow> pil_image" where
  "convert_RGB (PIL_RGB px) = PIL_RGB px"
| "convert_RGB (PIL_L px) = PIL_RGB (map (map (\<lambda>v. (v, v, v))) px)"

text \<open>\<^verbatim>\<open>np.array(img)\<close> and \<^verbatim>\<open>Image.fromarray(arr)\<close> keep the samples.\<close>

fun np_array :: "pil_image \<Rightarrow> ndarray" where
  "np_array (PIL_RGB px) = Color px"
| "np_array (PIL_L px) = Gray px"

fun Image_fromarray :: "ndarray \<Rightarrow> pil_image" where
  "Image_fromarray (Color px) = PIL_RGB px"
| "Image_fromarray (Gray px) = PIL_L px"

section \<open>Colour conversions of the library\<close>

text \<open>
  \<^verbatim>\<open>cv2.cvtColor\<close> raises \<^verbatim>\<open>cv2.error\<close> on an array without elements and on an
  array whose channel count does not fit the conversion code; a raised exception is the
  value \<open>None\<close>. The two channel swaps exchange the first and the third channel, the
  grey expansion replicates the sample.
\<close>

definition swap_rb :: "pixel3 \<Rightarrow> pixel3" where
  "swap_rb p = (case p of (c0, c1, c2) \<Rightarrow> (c2, c1, c0))"

fun cvtColor_RGB2BGR :: "ndarray \<Rightarrow> ndarray option" where
  "cvtColor_RGB2BGR (Color px) =
     (if concat px = [] then None else Some (Color (map (map swap_rb) px)))"
| "cvtColor_RGB2BGR (Gray px) = None"

fun cvtColor_BGR2RGB :: "ndarray \<Rightarrow> ndarray option" where
  "cvtColor_BGR2RGB (Color px) =
     (if concat px = [] then None else Some (Color (map (map swap_rb) px)))"
| "cvtColor_BGR2RGB (Gray px) = None"

fun cvtColor_GRAY2RGB :: "ndarray \<Rightarrow> ndarray option" where
  "cvtColor_GRAY2RGB (Gray px) =
     (if concat px = [] then None else Some (Color (map (map (\<lambda>v. (v, v, v))) px)))"
| "cvtColor_GRAY2RGB (Color px) = None"

section \<open>Colour-space adapter\<close>

text \<open>
  Source: \<^verbatim>\<open>utils/image_io.py\<close>.
  \<^verbatim>\<open>
  def pil_to_cv2(img_pil):
      arr = np.array(img_pil.convert("RGB"))
      return cv2.cvtColor(arr, cv2.COLOR_RGB2BGR)

  def cv2_to_pil(img_cv):
      if img_cv.ndim == 2:
          rgb = cv2.cvtColor(img_cv, cv2.COLOR_GRAY2RGB)
      else:
          rgb = cv2.cvtColor(img_cv, cv2.COLOR_BGR2RGB)
      return Image.fromarray(rgb)
  \<close>
\<close>

definition pil_to_cv2 :: "pil_image \<Rightarrow> ndarray option" where
  "pil_to_cv2 img_pil =
     (let arr = np_array (convert_RGB img_pil) in cvtColor_RGB2BGR arr)"

definition cv2_to_pil :: "ndarray \<Rightarrow> pil_image option" where
  "cv2_to_pil img_cv = do {
     rgb \<leftarrow> (if ndim img_cv = 2 then cvtColor_GRAY2RGB img_cv
             else cvtColor_BGR2RGB img_cv);
     Some (Image_fromarray rgb)
   }"

section \<open>Operators of the image library\<close>

text \<open>
  The filters call the neighbourhood operators of OpenCV, which are not part of the
  repository. They are the fields of a record that every filter takes as its first
  argument, so that a property of a filter holds for whatever the operators compute and
  names the operator contract it rests on. An operator that raises \<^verbatim>\<open>cv2.error\<close>
  returns \<open>None\<close>.
  \<^item> \<open>luma\<close>: the grey value that \<^verbatim>\<open>cv2.COLOR_BGR2GRAY\<close> gives one pixel;
  \<^item> \<open>GaussianBlur src (kw, kh) sigmaX sigmaY\<close>;
  \<^item> \<open>Canny src threshold1 threshold2\<close>;
  \<^item> \<open>Sobel src dx dy ksize\<close>, with output depth \<^verbatim>\<open>CV_64F\<close>;
  \<^item> \<open>Laplacian src ksize\<close>, with output depth \<^verbatim>\<open>CV_64F\<close>;
  \<^item> \<open>float32\<close> and \<open>float64\<close>: the rounding of a real number to the nearest number
    of the format.

  The kernels of the two gradient operators are integers and their input is 8-bit, so
  every sample of their \<^verbatim>\<open>CV_64F\<close> result is a whole number: a gradient array is a
  raster of \<open>int\<close>.
\<close>

record cv2 =
  luma :: "pixel3 \<Rightarrow> u8"
  GaussianBlur :: "u8 raster \<Rightarrow> int \<times> int \<Rightarrow> real \<Rightarrow> real \<Rightarrow> u8 raster option"
  Canny :: "u8 raster \<Rightarrow> int \<Rightarrow> int \<Rightarrow> u8 raster option"
  Sobel :: "u8 raster \<Rightarrow> int \<Rightarrow> int \<Rightarrow> int \<Rightarrow> int raster option"
  Laplacian :: "u8 raster \<Rightarrow> int \<Rightarrow> int raster option"
  float32 :: "real \<Rightarrow> real"
  float64 :: "real \<Rightarrow> real"

text \<open>
  \<^verbatim>\<open>cv2.cvtColor(img, cv2.COLOR_BGR2GRAY)\<close> works pixel by pixel and raises on an
  empty array and on an array that is not 3-channel.
\<close>

fun cvtColor_BGR2GRAY :: "cv2 \<Rightarrow> ndarray \<Rightarrow> u8 raster option" where
  "cvtColor_BGR2GRAY cv (Color px) =
     (if concat px = [] then None else Some (map (map (luma cv)) px))"
| "cvtColor_BGR2GRAY cv (Gray px) = None"

subsection \<open>Element-wise array operations\<close>

text \<open>\<^verbatim>\<open>np.zeros_like(gray, dtype=np.float64)\<close>.\<close>

definition zeros_like :: "'a raster \<Rightarrow> int raster" where
  "zeros_like a = map (map (\<lambda>_. 0)) a"

text \<open>\<^verbatim>\<open>a.astype(np.float32)\<close>: every sample is rounded to float32.\<close>

definition astype_float32 :: "cv2 \<Rightarrow> int raster \<Rightarrow> real raster" where
  "astype_float32 cv a = map (map (\<lambda>x. float32 cv (of_int x))) a"

text \<open>
  \<^verbatim>\<open>a.astype(np.uint8)\<close> on a floating-point array: the fraction is cut off (towards
  zero) and the integer is reduced to 8 bits.
\<close>

definition trunc_real :: "real \<Rightarrow> int" where
  "trunc_real x = (if x < 0 then \<lceil>x\<rceil> else \<lfloor>x\<rfloor>)"

definition astype_uint8 :: "real raster \<Rightarrow> u8 raster" where
  "astype_uint8 a = map (map (\<lambda>x. word_of_int (trunc_real x))) a"

text \<open>
  \<^verbatim>\<open>cv2.magnitude(x, y)\<close> on float32 arrays: \<^verbatim>\<open>sqrt(x*x + y*y)\<close> for each pair of
  samples, every operation in float32; the two arrays must have the same shape.
\<close>

definition magnitude :: "cv2 \<Rightarrow> real raster \<Rightarrow> real raster \<Rightarrow> real raster option" where
  "magnitude cv x y =
     (if map length x = map length y
      then Some (map2 (map2 (\<lambda>a b.
              float32 cv (sqrt (float32 cv (float32 cv (a * a) + float32 cv (b * b)))))) x y)
      else None)"

text \<open>
  A floating-point division by zero has no finite result. The division of the model is
  checked: dividing by zero is the value \<open>None\<close>, so that a computation that divides
  by zero differs from one that does not.
\<close>

definition checked_div :: "cv2 \<Rightarrow> real \<Rightarrow> real \<Rightarrow> real option" where
  "checked_div cv a b = (if b = 0 then None else Some (float64 cv (a / b)))"

text \<open>
  \<^verbatim>\<open>cv2.normalize(src, None, a, b, cv2.NORM_MINMAX)\<close> on a float32 array. With
  \<open>smin\<close> and \<open>smax\<close> the least and the greatest sample of \<open>src\<close>, the library computes
  \<^verbatim>\<open>
  scale = (dmax - dmin) * (smax - smin > DBL_EPSILON ? 1./(smax - smin) : 0);
  scale = (float)scale;
  shift = (float)dmin - (float)(smin * scale);
  \<close>
  in double precision and returns \<^verbatim>\<open>src * scale + shift\<close>, computed in float32. The
  filters reach it with a non-empty array only; the extrema of an empty array are taken
  as 0.
\<close>

definition DBL_EPSILON :: real where
  "DBL_EPSILON = 1 / 2 ^ 52"

fun min_sample :: "real list \<Rightarrow> real" where
  "min_sample [] = 0"
| "min_sample (x # xs) = fold min xs x"

fun max_sample :: "real list \<Rightarrow> real" where
  "max_sample [] = 0"
| "max_sample (x # xs) = fold max xs x"

definition normalize_minmax :: "cv2 \<Rightarrow> real raster \<Rightarrow> real \<Rightarrow> real \<Rightarrow> real raster option" where
  "normalize_minmax cv src a b = do {
     let smin = min_sample (concat src);
     let smax = max_sample (concat src);
     let dmin = min a b;
     let dmax = max a b;
     r \<leftarrow> (if smax - smin > DBL_EPSILON then checked_div cv 1 (smax - smin) else Some 0);
     let scale = float32 cv (float64 cv ((dmax - dmin) * r));
     let shift = float32 cv (float32 cv dmin - float32 cv (float64 cv (smin * scale)));
     Some (map (map (\<lambda>x. float32 cv (float32 cv (x * scale) + shift))) src)
   }"

text \<open>
  \<^verbatim>\<open>cv2.convertScaleAbs(src)\<close> with the default scale 1 and shift 0: the absolute
  value of each sample is rounded to a signed 32-bit integer and that integer is
  saturated to the range of 8 bits. A whole number that fits 32 bits is its own
  rounding; for one that does not, the conversion instruction gives the least 32-bit
  integer, which saturates to 0. (The vector code of the library passes through float32
  first, which moves the bound down by at most 64.)
\<close>

definition cvRound :: "int \<Rightarrow> int" where
  "cvRound v = (if - (2 ^ 31) \<le> v \<and> v < 2 ^ 31 then v else - (2 ^ 31))"

definition saturate_u8 :: "int \<Rightarrow> u8" where
  "saturate_u8 i = word_of_int (if i < 0 then 0 else if 255 < i then 255 else i)"

definition convertScaleAbs :: "int raster \<Rightarrow> u8 raster" where
  "convertScaleAbs src = map (map (\<lambda>x. saturate_u8 (cvRound \<bar>x\<bar>))) src"

subsection \<open>Strings\<close>

text \<open>
  \<^verbatim>\<open>s.capitalize()\<close> makes the first character upper case and the others lower case.
  A \<open>char\<close> is a byte; the letters of ASCII are mapped, every other byte is kept. The
  result is only compared with \<^verbatim>\<open>"X"\<close>, \<^verbatim>\<open>"Y"\<close> and \<^verbatim>\<open>"Both"\<close>.
\<close>

definition upper_char :: "char \<Rightarrow> char" where
  "upper_char c =
     (let n = of_char c :: nat in if 97 \<le> n \<and> n \<le> 122 then char_of (n - 32) else c)"

definition lower_char :: "char \<Rightarrow> char" where
  "lower_char c =
     (let n = of_char c :: nat in if 65 \<le> n \<and> n \<le> 90 then char_of (n + 32) else c)"

fun capitalize :: "string \<Rightarrow> string" where
  "capitalize [] = []"
| "capitalize (c # cs) = upper_char c # map lower_char cs"

text \<open>
  \<^verbatim>\<open>direction or "Both"\<close>: the default replaces a value that is falsy, which for an
  optional string is \<^verbatim>\<open>None\<close> or the empty string.
\<close>

fun or_default :: "string option \<Rightarrow> string \<Rightarrow> string" where
  "or_default None d = d"
| "or_default (Some s) d = (if s = [] then d else s)"

section \<open>Filter pipeline\<close>

text \<open>
  Source: \<^verbatim>\<open>processors/edges.py\<close>.
  \<^verbatim>\<open>
  def _gaussian_blur(gray, ksize, sigma):
      k = _odd(ksize)
      return cv2.GaussianBlur(gray, (k, k), sigmaX=float(sigma), sigmaY=float(sigma))

  def run_canny(img_bgr, low, high, ksize, sigma):
      gray = cv2.cvtColor(img_bgr, cv2.COLOR_BGR2GRAY)
      if ksize > 1 or sigma > 0:
          gray = _gaussian_blur(gray, ksize, sigma)
      edges = cv2.Canny(gray, threshold1=int(low), threshold2=int(high))
      return edges
  \<close>
\<close>

definition gaussian_blur :: "cv2 \<Rightarrow> u8 raster \<Rightarrow> int \<Rightarrow> real \<Rightarrow> u8 raster option" where
  "gaussian_blur cv gray ksize sigma =
     (let k = py_odd ksize in GaussianBlur cv gray (k, k) sigma sigma)"

definition run_canny :: "cv2 \<Rightarrow> ndarray \<Rightarrow> int \<Rightarrow> int \<Rightarrow> int \<Rightarrow> real \<Rightarrow> ndarray option" where
  "run_canny cv img_bgr low high ksize sigma = do {
     gray \<leftarrow> cvtColor_BGR2GRAY cv img_bgr;
     gray \<leftarrow> (if ksize > 1 \<or> sigma > 0 then gaussian_blur cv gray ksize sigma
              else Some gray);
     edges \<leftarrow> Canny cv gray low high;
     Some (Gray edges)
   }"

text \<open>
  \<^verbatim>\<open>
  def run_sobel(img_bgr, ksize, direction):
      gray = cv2.cvtColor(img_bgr, cv2.COLOR_BGR2GRAY)
      k = _odd(ksize)
      direction = (direction or "Both").capitalize()
      dx = 1 if direction in ("X", "Both") else 0
      dy = 1 if direction in ("Y", "Both") else 0
      gx = cv2.Sobel(gray, cv2.CV_64F, 1, 0, ksize=k) if dx else np.zeros_like(gray, dtype=np.float64)
      gy = cv2.Sobel(gray, cv2.CV_64F, 0, 1, ksize=k) if dy else np.zeros_like(gray, dtype=np.float64)
      if direction == "Both":
          mag = cv2.magnitude(gx.astype(np.float32), gy.astype(np.float32))
          mag = cv2.normalize(mag, None, 0, 255, cv2.NORM_MINMAX)
          return mag.astype(np.uint8)
      single = gx if dx else gy
      return cv2.convertScaleAbs(single)
  \<close>
  The flags \<^verbatim>\<open>dx\<close> and \<^verbatim>\<open>dy\<close> are only tested for truth and are booleans here.
\<close>

definition run_sobel :: "cv2 \<Rightarrow> ndarray \<Rightarrow> int \<Rightarrow> string option \<Rightarrow> ndarray option" where
  "run_sobel cv img_bgr ksize direction = do {
     gray \<leftarrow> cvtColor_BGR2GRAY cv img_bgr;
     let k = py_odd ksize;
     let direction = capitalize (or_default direction ''Both'');
     let dx = (direction = ''X'' \<or> direction = ''Both'');
     let dy = (direction = ''Y'' \<or> direction = ''Both'');
     gx \<leftarrow> (if dx then Sobel cv gray 1 0 k else Some (zeros_like gray));
     gy \<leftarrow> (if dy then Sobel cv gray 0 1 k else Some (zeros_like gray));
     if direction = ''Both'' then do {
       mag \<leftarrow> magnitude cv (astype_float32 cv gx) (astype_float32 cv gy);
       mag \<leftarrow> normalize_minmax cv mag 0 255;
       Some (Gray (astype_uint8 mag))
     } else do {
       let single = (if dx then gx else gy);
       Some (Gray (convertScaleAbs single))
     }
   }"

text \<open>
  \<^verbatim>\<open>
  def run_laplacian(img_bgr, ksize):
      gray = cv2.cvtColor(img_bgr, cv2.COLOR_BGR2GRAY)
      k = _odd(ksize)
      lap = cv2.Laplacian(gray, cv2.CV_64F, ksize=k)
      return cv2.convertScaleAbs(lap)
  \<close>
\<close>

definition run_laplacian :: "cv2 \<Rightarrow> ndarray \<Rightarrow> int \<Rightarrow> ndarray option" where
  "run_laplacian cv img_bgr ksize = do {
     gray \<leftarrow> cvtColor_BGR2GRAY cv img_bgr;
     let k = py_odd ksize;
     lap \<leftarrow> Laplacian cv gray k;
     Some (Gray (convertScaleAbs lap))
   }"

section \<open>Operator contracts\<close>

text \<open>
  What the properties below assume of the library, each as a predicate on the operator
  record: an operator that returns gives an array of the shape of its input (the list
  of the row lengths is the same), the edge operator marks every pixel with 0 or 255,
  the gradient of a uniform image is uniform, and rounding keeps the number 0. The
  predicate \<open>abs_clamped\<close> relates a gradient array to an 8-bit array that holds, pixel
  by pixel, its absolute value cut off at 255, and 0 where the absolute value does not
  fit a signed 32-bit integer; it leaves open the values from \<open>2 ^ 31 - 64\<close> up to
  \<open>2 ^ 31\<close>, where the two code paths of the library differ.
\<close>

definition binary :: "u8 raster \<Rightarrow> bool" where
  "binary r = list_all (list_all (\<lambda>p. p = 0 \<or> p = 255)) r"

definition canny_binary :: "cv2 \<Rightarrow> bool" where
  "canny_binary cv =
     (\<forall>src t1 t2 dst. Canny cv src t1 t2 = Some dst \<longrightarrow> binary dst)"

definition keeps_shape :: "cv2 \<Rightarrow> bool" where
  "keeps_shape cv =
     ((\<forall>src ks sx sy dst. GaussianBlur cv src ks sx sy = Some dst
          \<longrightarrow> map length dst = map length src) \<and>
      (\<forall>src t1 t2 dst. Canny cv src t1 t2 = Some dst
          \<longrightarrow> map length dst = map length src) \<and>
      (\<forall>src dx dy k dst. Sobel cv src dx dy k = Some dst
          \<longrightarrow> map length dst = map length src) \<and>
      (\<forall>src k dst. Laplacian cv src k = Some dst
          \<longrightarrow> map length dst = map length src))"


definition sobel_uniform :: "cv2 \<Rightarrow> bool" where
  "sobel_uniform cv =
     (\<forall>h w c dx dy k dst. Sobel cv (replicate h (replicate w c)) dx dy k = Some dst
          \<longrightarrow> (\<exists>d. dst = replicate h (replicate w d)))"

definition rounds_zero :: "cv2 \<Rightarrow> bool" where
  "rounds_zero cv = (float32 cv 0 = 0 \<and> float64 cv 0 = 0)"

section \<open>A small instance of the operators\<close>

text \<open>
  An executable instance of the operator record, for the closed examples. Its gradient
  operator builds the kernels of the library for the odd sizes up to 31 (and the fixed
  Scharr kernels for a size that is not positive) and refuses, as the library does, a
  size above 31; it filters with the border rule \<^verbatim>\<open>BORDER_REFLECT_101\<close>. The
  Laplacian and the blur know the 3-tap kernels only, the edge operator only thresholds
  the gradient, and the two roundings are exact. The properties of the filters are
  proved for every operator record and do not depend on it.
\<close>

definition reflect101 :: "nat \<Rightarrow> int \<Rightarrow> nat" where
  "reflect101 n p =
     (if n \<le> 1 then 0
      else let period = 2 * (int n - 1); q = p mod period
           in nat (if q < int n then q else period - q))"

definition sample_at :: "int raster \<Rightarrow> int \<Rightarrow> int \<Rightarrow> int" where
  "sample_at img y x =
     (let row = img ! reflect101 (length img) y
      in row ! reflect101 (length row) x)"

definition correlate :: "int raster \<Rightarrow> int raster \<Rightarrow> int raster" where
  "correlate K img =
     map (\<lambda>y. map (\<lambda>x.
            (\<Sum>(a, krow) \<leftarrow> enumerate 0 K. \<Sum>(b, kv) \<leftarrow> enumerate 0 krow.
               kv * sample_at img (int y + int a - int (length K div 2))
                                  (int x + int b - int (length krow div 2))))
          [0..<length (img ! y)])
       [0..<length img]"

definition samples :: "u8 raster \<Rightarrow> int raster" where
  "samples img = map (map uint) img"

definition luma_ref :: "pixel3 \<Rightarrow> u8" where
  "luma_ref p =
     (case p of (b, g, r) \<Rightarrow>
        word_of_int ((1868 * uint b + 9617 * uint g + 4899 * uint r + 8192) div 16384))"

text \<open>
  The taps of a derivative kernel: starting from \<open>[1]\<close>, \<open>ksize - order - 1\<close> smoothing
  passes (each tap plus its left neighbour) and \<open>order\<close> difference passes (the left
  neighbour minus the tap). A size of 1 becomes 3 in the direction of the derivative.
\<close>

definition smooth_pass :: "int list \<Rightarrow> int list" where
  "smooth_pass k = map2 (+) (k @ [0]) (0 # k)"

definition diff_pass :: "int list \<Rightarrow> int list" where
  "diff_pass k = map2 (-) (0 # k) (k @ [0])"

definition sobel_taps :: "nat \<Rightarrow> nat \<Rightarrow> int list" where
  "sobel_taps order ksize = (diff_pass ^^ order) ((smooth_pass ^^ (ksize - order - 1)) [1])"

definition scharr_taps :: "nat \<Rightarrow> int list" where
  "scharr_taps order = (if order = 0 then [3, 10, 3] else [-1, 0, 1])"

definition deriv_kernels :: "int \<Rightarrow> int \<Rightarrow> int \<Rightarrow> (int list \<times> int list) option" where
  "deriv_kernels dx dy k =
     (if dx < 0 \<or> dy < 0 \<or> dx + dy \<le> 0 then None
      else if k \<le> 0 then
        (if dx + dy = 1 then Some (scharr_taps (nat dx), scharr_taps (nat dy)) else None)
      else if even k \<or> 31 < k then None
      else let kx = (if k = 1 \<and> 0 < dx then 3 else k);
               ky = (if k = 1 \<and> 0 < dy then 3 else k)
           in if kx \<le> dx \<or> ky \<le> dy then None
              else Some (sobel_taps (nat dx) (nat kx), sobel_taps (nat dy) (nat ky)))"

definition Sobel_ref :: "u8 raster \<Rightarrow> int \<Rightarrow> int \<Rightarrow> int \<Rightarrow> int raster option" where
  "Sobel_ref src dx dy k =
     (if concat src = [] then None
      else map_option
             (\<lambda>(kx, ky). correlate (map (\<lambda>v. [v]) ky) (correlate [kx] (samples src)))
             (deriv_kernels dx dy k))"

definition Laplacian_ref :: "u8 raster \<Rightarrow> int \<Rightarrow> int raster option" where
  "Laplacian_ref src k =
     (if concat src = [] then None
      else if k = 1 then
        Some (correlate [[0, 1, 0], [1, -4, 1], [0, 1, 0]] (samples src))
      else if k = 3 then
        Some (correlate [[2, 0, 2], [0, -8, 0], [2, 0, 2]] (samples src))
      else None)"

definition GaussianBlur_ref :: "u8 raster \<Rightarrow> int \<times> int \<Rightarrow> real \<Rightarrow> real \<Rightarrow> u8 raster option" where
  "GaussianBlur_ref src ks sx sy =
     (if concat src = [] \<or> 0 < sx \<or> 0 < sy then None
      else if ks = (1, 1) then Some src
      else if ks = (3, 3) then
        Some (map (map (\<lambda>s. word_of_int ((s + 8) div 16)))
                (correlate [[1, 2, 1], [2, 4, 2], [1, 2, 1]] (samples src)))
      else None)"

definition Canny_ref :: "u8 raster \<Rightarrow> int \<Rightarrow> int \<Rightarrow> u8 raster option" where
  "Canny_ref src t1 t2 =
     (if concat src = [] then None
      else Some (map2 (map2 (\<lambda>gx gy. if max t1 t2 < \<bar>gx\<bar> + \<bar>gy\<bar> then 255 else 0))
                   (correlate [[-1, 0, 1], [-2, 0, 2], [-1, 0, 1]] (samples src))
                   (correlate [[-1, -2, -1], [0, 0, 0], [1, 2, 1]] (samples src))))"

definition cv_ref :: cv2 where
  "cv_ref = \<lparr> luma = luma_ref, GaussianBlur = GaussianBlur_ref, Canny = Canny_ref,
              Sobel = Sobel_ref, Laplacian = Laplacian_ref,
              float32 = (\<lambda>x. x), float64 = (\<lambda>x. x) \<rparr>"

section \<open>Properties of the kernel normalizer\<close>

text \<open>
  Claim C3. For every odd integer k with k at least 1 the kernel normalizer returns k
  unchanged, for every even integer k with k at least 2 it returns k + 1, and hence the
  result is odd for every positive input.
\<close>

theorem py_odd_positive:
  "(odd k \<and> 1 \<le> k \<longrightarrow> py_odd k = k) \<and>
   (even k \<and> 2 \<le> k \<longrightarrow> py_odd k = k + 1) \<and>
   (0 < k \<longrightarrow> odd (py_odd k))"
  by (auto simp: py_odd_def odd_iff_mod_2_eq_one)

theorem py_odd_positive_witness:
  "(odd (7::int) \<and> 1 \<le> (7::int)) \<and> py_odd 7 = 7 \<and>
   (even (4::int) \<and> 2 \<le> (4::int)) \<and> py_odd 4 = 5 \<and>
   (0 < (4::int)) \<and> odd (py_odd 4)"
  using py_odd_positive [of 7] py_odd_positive [of 4] by simp

text \<open>
  Claim C9. For every integer v, zero and negative values included, the kernel
  normalizer returns an odd integer: an odd input is returned unchanged and an even
  input is incremented by one.
\<close>

theorem py_odd_total:
  "odd (py_odd v) \<and> (odd v \<longrightarrow> py_odd v = v) \<and> (even v \<longrightarrow> py_odd v = v + 1)"
  by (auto simp: py_odd_def odd_iff_mod_2_eq_one)

theorem py_odd_total_witness:
  "odd (py_odd (-4)) \<and> odd (-3::int) \<and> py_odd (-3) = -3 \<and>
   even (-4::int) \<and> py_odd (-4) = -4 + 1 \<and> py_odd 0 = 1"
  using py_odd_total [of "-3"] py_odd_total [of "-4"] py_odd_total [of 0] by simp

section \<open>Properties of the colour-space adapter\<close>

text \<open>
  Claim C6. For every 3-channel 8-bit raster (one that has at least one pixel),
  converting it from RGB to the internal BGR order with \<^verbatim>\<open>pil_to_cv2\<close> and back with
  \<^verbatim>\<open>cv2_to_pil\<close> returns a raster equal to the original, pixel for pixel; the
  intermediate array holds every pixel with its first and third channel exchanged.
\<close>

theorem adapter_round_trip:
  assumes "concat px \<noteq> []"
  shows "pil_to_cv2 (PIL_RGB px) = Some (Color (map (map swap_rb) px)) \<and>
         (pil_to_cv2 (PIL_RGB px) \<bind> cv2_to_pil) = Some (PIL_RGB px)"
proof -
  have swap: "swap_rb (swap_rb p) = p" for p
    by (simp add: swap_rb_def split: prod.splits)
  have ne: "concat (map (map swap_rb) px) \<noteq> []"
    using assms by (simp add: map_concat [symmetric])
  have fwd: "pil_to_cv2 (PIL_RGB px) = Some (Color (map (map swap_rb) px))"
    using assms by (simp add: pil_to_cv2_def)
  have bwd: "cv2_to_pil (Color (map (map swap_rb) px)) = Some (PIL_RGB px)"
    using ne by (simp add: cv2_to_pil_def o_def swap)
  show ?thesis using fwd bwd by simp
qed

theorem adapter_round_trip_witness:
  "concat [[(1, 2, 3), (4, 5, 6)], [(7, 8, 9), (10, 11, 12 :: u8)]] \<noteq> [] \<and>
   pil_to_cv2 (PIL_RGB [[(1, 2, 3), (4, 5, 6)], [(7, 8, 9), (10, 11, 12)]])
     = Some (Color [[(3, 2, 1), (6, 5, 4)], [(9, 8, 7), (12, 11, 10)]]) \<and>
   (pil_to_cv2 (PIL_RGB [[(1, 2, 3), (4, 5, 6)], [(7, 8, 9), (10, 11, 12)]]) \<bind> cv2_to_pil)
     = Some (PIL_RGB [[(1, 2, 3), (4, 5, 6)], [(7, 8, 9), (10, 11, 12)]])"
proof -
  have ne: "concat [[(1, 2, 3), (4, 5, 6)], [(7, 8, 9), (10, 11, 12 :: u8)]] \<noteq> []"
    by simp
  have sw: "map (map swap_rb) [[(1, 2, 3), (4, 5, 6)], [(7, 8, 9), (10, 11, 12)]]
      = [[(3, 2, 1), (6, 5, 4)], [(9, 8, 7), (12, 11, 10)]]"
    by (simp add: swap_rb_def)
  from adapter_round_trip [OF ne] show ?thesis
    unfolding sw using ne by blast
qed

section \<open>Facts about strings\<close>

text \<open>
  Upper and lower case absorb each other, so the capitalized string depends only on the
  lower-case form of its argument.
\<close>

lemma of_char_upper:
  "(of_char (upper_char c) :: nat) =
     (if 97 \<le> (of_char c :: nat) \<and> (of_char c :: nat) \<le> 122 then of_char c - 32 else of_char c)"
  by (auto simp add: upper_char_def Let_def)

lemma of_char_lower:
  "(of_char (lower_char c) :: nat) =
     (if 65 \<le> (of_char c :: nat) \<and> (of_char c :: nat) \<le> 90 then of_char c + 32 else of_char c)"
  by (auto simp add: lower_char_def Let_def)

lemma upper_lower_char: "upper_char (lower_char c) = upper_char c"
  by (rule of_char_eqI [where ?'a = nat]) (simp add: of_char_upper of_char_lower)

lemma lower_upper_char: "lower_char (upper_char c) = lower_char c"
  by (rule of_char_eqI [where ?'a = nat]) (auto simp add: of_char_upper of_char_lower)

lemma lower_lower_char: "lower_char (lower_char c) = lower_char c"
  by (rule of_char_eqI [where ?'a = nat]) (simp add: of_char_lower)

lemma capitalize_lower: "capitalize (map lower_char d) = capitalize d"
  by (cases d) (simp_all add: upper_lower_char lower_lower_char)

lemma lower_capitalize: "map lower_char (capitalize d) = map lower_char d"
  by (cases d) (simp_all add: lower_upper_char lower_lower_char)

lemma capitalize_cong:
  "map lower_char d = map lower_char d' \<Longrightarrow> capitalize d = capitalize d'"
  by (metis capitalize_lower)

lemma capitalize_literals:
  "capitalize ''x'' = ''X''" "capitalize ''y'' = ''Y''" "capitalize ''both'' = ''Both''"
  "map lower_char ''X'' = ''x''" "map lower_char ''Y'' = ''y''"
  "map lower_char ''Both'' = ''both''"
  by (simp_all add: upper_char_def lower_char_def char_of_def bit_Suc_0_iff)

lemma capitalize_eq_iff:
  "capitalize d = ''X'' \<longleftrightarrow> map lower_char d = ''x''"
  "capitalize d = ''Y'' \<longleftrightarrow> map lower_char d = ''y''"
  "capitalize d = ''Both'' \<longleftrightarrow> map lower_char d = ''both''"
  using lower_capitalize [of d] capitalize_lower [of d] capitalize_literals
  by metis+


section \<open>Facts about shapes\<close>

text \<open>The element-wise operations keep the list of row lengths.\<close>

lemma map2_shape:
  "map length x = map length y \<Longrightarrow> map length (map2 (map2 f) x y) = map length x"
proof (induction x arbitrary: y)
  case Nil
  then show ?case by simp
next
  case (Cons r x)
  then obtain s y' where y: "y = s # y'" by (cases y) auto
  with Cons show ?case by simp
qed

lemma magnitude_shape:
  "magnitude cv x y = Some m \<Longrightarrow> map length m = map length x"
proof -
  assume a: "magnitude cv x y = Some m"
  then have eq: "map length x = map length y"
    by (simp add: magnitude_def split: if_splits)
  with a have "m = map2 (map2 (\<lambda>a b.
      float32 cv (sqrt (float32 cv (float32 cv (a * a) + float32 cv (b * b)))))) x y"
    by (simp add: magnitude_def)
  then show ?thesis
    by (simp only: map2_shape [OF eq])
qed

lemma normalize_minmax_returns: "normalize_minmax cv src a b \<noteq> None"
proof -
  have pos: "0 < DBL_EPSILON"
    by (simp add: DBL_EPSILON_def)
  then show ?thesis
    by (auto simp: normalize_minmax_def Let_def checked_div_def split: bind_splits if_splits)
qed

lemma normalize_shape:
  "normalize_minmax cv m a b = Some n \<Longrightarrow> map length n = map length m"
  by (auto simp: normalize_minmax_def Let_def o_def split: bind_splits if_splits)

lemma astype_float32_shape: "map length (astype_float32 cv m) = map length m"
  by (simp add: astype_float32_def o_def)

lemma astype_uint8_shape: "map length (astype_uint8 m) = map length m"
  by (simp add: astype_uint8_def o_def)

lemma convertScaleAbs_shape: "map length (convertScaleAbs m) = map length m"
  by (simp add: convertScaleAbs_def o_def)

lemma zeros_like_shape: "map length (zeros_like m) = map length m"
  by (simp add: zeros_like_def o_def)

section \<open>Facts about the small instance\<close>

text \<open>The instance satisfies the operator contracts.\<close>

lemma correlate_shape: "map length (correlate K img) = map length img"
proof -
  have "map length (correlate K img) = map (\<lambda>y. length (img ! y)) [0..<length img]"
    by (simp add: correlate_def o_def)
  also have "\<dots> = map length (map (\<lambda>y. img ! y) [0..<length img])"
    by (simp add: o_def)
  also have "\<dots> = map length img"
    by (simp only: map_nth)
  finally show ?thesis .
qed

lemma samples_shape: "map length (samples src) = map length src"
  by (simp add: samples_def o_def)

lemma Canny_ref_shape:
  assumes "Canny_ref src t1 t2 = Some dst"
  shows "map length dst = map length src"
proof -
  let ?gx = "correlate [[-1, 0, 1], [-2, 0, 2], [-1, 0, 1]] (samples src)"
  let ?gy = "correlate [[-1, -2, -1], [0, 0, 0], [1, 2, 1]] (samples src)"
  have eq: "map length ?gx = map length ?gy"
    by (simp only: correlate_shape)
  from assms have "dst = map2 (map2 (\<lambda>gx gy. if max t1 t2 < \<bar>gx\<bar> + \<bar>gy\<bar> then 255 else 0)) ?gx ?gy"
    by (simp add: Canny_ref_def split: if_splits)
  then have "map length dst = map length ?gx"
    by (simp only: map2_shape [OF eq])
  then show ?thesis
    by (simp only: correlate_shape samples_shape)
qed

lemma GaussianBlur_ref_shape:
  "GaussianBlur_ref src ks sx sy = Some dst \<Longrightarrow> map length dst = map length src"
  using correlate_shape [of "[[1, 2, 1], [2, 4, 2], [1, 2, 1]]" "samples src"] samples_shape [of src]
  by (auto simp: GaussianBlur_ref_def o_def split: if_splits)

lemma Sobel_ref_shape:
  "Sobel_ref src dx dy k = Some dst \<Longrightarrow> map length dst = map length src"
  by (auto simp: Sobel_ref_def correlate_shape samples_shape split: if_splits)

lemma Laplacian_ref_shape:
  "Laplacian_ref src k = Some dst \<Longrightarrow> map length dst = map length src"
  by (auto simp: Laplacian_ref_def correlate_shape samples_shape split: if_splits)

lemma keeps_shape_ref: "keeps_shape cv_ref"
  unfolding keeps_shape_def cv_ref_def
  using Canny_ref_shape GaussianBlur_ref_shape Sobel_ref_shape Laplacian_ref_shape
  by simp

lemma binary_map2:
  "binary (map2 (map2 (\<lambda>a b. if P a b then 255 else 0)) x y)"
  unfolding binary_def list_all_iff
  by (auto dest!: in_set_zipE)

lemma canny_binary_ref: "canny_binary cv_ref"
  unfolding canny_binary_def cv_ref_def
  by (auto simp: Canny_ref_def binary_map2 split: if_splits)

lemma rounds_zero_ref: "rounds_zero cv_ref"
  by (simp add: rounds_zero_def cv_ref_def)

lemma reflect101_less: "0 < n \<Longrightarrow> reflect101 n p < n"
proof -
  assume n: "0 < n"
  show ?thesis
  proof (cases "n \<le> 1")
    case True
    then show ?thesis using n by (simp add: reflect101_def)
  next
    case False
    define period where "period = 2 * (int n - 1)"
    define q where "q = p mod period"
    have pp: "0 < period" using False by (simp add: period_def)
    then have q: "0 \<le> q" "q < period" by (simp_all add: q_def)
    have "reflect101 n p = nat (if q < int n then q else period - q)"
      using False by (simp add: reflect101_def Let_def period_def q_def)
    moreover have "nat (if q < int n then q else period - q) < n"
      using q by (auto simp: period_def)
    ultimately show ?thesis by simp
  qed
qed

lemma sample_at_uniform:
  assumes "0 < h" "0 < w"
  shows "sample_at (replicate h (replicate w c)) y x = c"
  using assms by (simp add: sample_at_def Let_def reflect101_less)

lemma correlate_uniform:
  assumes "0 < h" "0 < w"
  shows "\<exists>s. correlate K (replicate h (replicate w c)) = replicate h (replicate w s)"
proof -
  define s where "s = (\<Sum>(a, krow) \<leftarrow> enumerate 0 K. \<Sum>(b, kv) \<leftarrow> enumerate 0 krow. kv * c)"
  have "correlate K (replicate h (replicate w c)) = map (\<lambda>y. map (\<lambda>x. s) [0..<w]) [0..<h]"
    unfolding correlate_def s_def
    by (simp add: sample_at_uniform [OF assms] cong: map_cong)
  also have "\<dots> = replicate h (replicate w s)"
    by (simp add: map_replicate_const)
  finally show ?thesis by blast
qed

lemma sobel_uniform_ref: "sobel_uniform cv_ref"
  unfolding sobel_uniform_def
proof (intro allI impI)
  fix h w c dx dy k dst
  assume a: "Sobel cv_ref (replicate h (replicate w c)) dx dy k = Some dst"
  then have ne: "concat (replicate h (replicate w c)) \<noteq> []"
    by (auto simp: cv_ref_def Sobel_ref_def split: if_splits)
  have h: "0 < h" using ne by (cases h) auto
  have w: "0 < w" using ne by (cases w) auto
  have s: "samples (replicate h (replicate w c)) = replicate h (replicate w (uint c))"
    by (simp add: samples_def)
  from a obtain kx ky where
    "dst = correlate (map (\<lambda>v. [v]) ky) (correlate [kx] (replicate h (replicate w (uint c))))"
    by (auto simp: cv_ref_def Sobel_ref_def s split: if_splits)
  moreover obtain r where "correlate [kx] (replicate h (replicate w (uint c))) = replicate h (replicate w r)"
    using correlate_uniform [OF h w] by blast
  moreover obtain d where "correlate (map (\<lambda>v. [v]) ky) (replicate h (replicate w r)) = replicate h (replicate w d)"
    using correlate_uniform [OF h w] by blast
  ultimately show "\<exists>d. dst = replicate h (replicate w d)"
    by auto
qed

section \<open>Facts about the element-wise operations\<close>

text \<open>
  Min-max normalization never divides by zero; on a uniform array it takes the branch
  with scale 0. The saturating conversion gives the absolute value cut off at 255, and 0
  where the absolute value does not fit 32 bits.
\<close>

lemma fold_min_replicate: "(min m ^^ k) (m::real) = m"
  by (induction k) simp_all

lemma fold_max_replicate: "(max m ^^ k) (m::real) = m"
  by (induction k) simp_all

lemma concat_uniform: "concat (replicate h (replicate w c)) = replicate (h * w) c"
  by (induction h) (simp_all add: replicate_add)

lemma min_sample_replicate: "0 < n \<Longrightarrow> min_sample (replicate n m) = m"
  by (cases n) (simp_all add: fold_min_replicate)

lemma max_sample_replicate: "0 < n \<Longrightarrow> max_sample (replicate n m) = m"
  by (cases n) (simp_all add: fold_max_replicate)

lemma normalize_uniform:
  assumes "rounds_zero cv" "0 < h" "0 < w"
  shows "normalize_minmax cv (replicate h (replicate w m)) 0 255
           = Some (replicate h (replicate w 0))"
proof -
  have n: "0 < h * w" using assms by simp
  have z: "float32 cv 0 = 0" "float64 cv 0 = 0"
    using assms(1) by (simp_all add: rounds_zero_def)
  show ?thesis
    by (simp add: normalize_minmax_def concat_uniform min_sample_replicate [OF n]
        max_sample_replicate [OF n] DBL_EPSILON_def z)
qed

lemma astype_float32_uniform:
  "astype_float32 cv (replicate h (replicate w a))
     = replicate h (replicate w (float32 cv (of_int a)))"
  by (simp add: astype_float32_def)

lemma magnitude_uniform:
  "\<exists>m. magnitude cv (replicate h (replicate w a)) (replicate h (replicate w b))
          = Some (replicate h (replicate w m))"
  by (simp add: magnitude_def)

lemma astype_uint8_zero:
  "astype_uint8 (replicate h (replicate w 0)) = replicate h (replicate w 0)"
  by (simp add: astype_uint8_def trunc_real_def)





lemma run_sobel_Both:
  "run_sobel cv img ksize (Some ''Both'') =
     do { gray \<leftarrow> cvtColor_BGR2GRAY cv img;
          gx \<leftarrow> Sobel cv gray 1 0 (py_odd ksize);
          gy \<leftarrow> Sobel cv gray 0 1 (py_odd ksize);
          mag \<leftarrow> magnitude cv (astype_float32 cv gx) (astype_float32 cv gy);
          mag \<leftarrow> normalize_minmax cv mag 0 255;
          Some (Gray (astype_uint8 mag)) }"
proof -
  have cap: "capitalize (or_default (Some ''Both'') ''Both'') = ''Both''"
    by (simp add: upper_char_def lower_char_def char_of_def bit_Suc_0_iff)
  show ?thesis
    unfolding run_sobel_def cap by (simp add: Let_def)
qed

lemma convertScaleAbs_zeros:
  "convertScaleAbs (zeros_like gray) = map (map (\<lambda>_. 0)) gray"
  by (simp add: convertScaleAbs_def zeros_like_def saturate_u8_def cvRound_def o_def)

section \<open>Closed examples\<close>


lemma taps3:
  "sobel_taps 1 3 = [- 1, 0, 1]" "sobel_taps 0 3 = [1, 2, 1]"
  by code_simp+


lemma kernels_3:
  "deriv_kernels 1 0 3 = Some ([- 1, 0, 1], [1, 2, 1])"
  "deriv_kernels 0 1 3 = Some ([1, 2, 1], [- 1, 0, 1])"
  using taps3 by (simp_all add: deriv_kernels_def)

lemmas corr_eval = correlate_def samples_def sample_at_def reflect101_def

lemmas ref_eval = cv_ref_def luma_ref_def Laplacian_ref_def GaussianBlur_ref_def Canny_ref_def
  corr_eval py_odd_def

lemmas char_eval = upper_char_def lower_char_def char_of_def bit_Suc_0_iff

lemma gray_edge_row:
  "cvtColor_BGR2GRAY cv_ref (Color [[(0, 0, 0), (0, 0, 0), (255, 255, 255)]]) = Some [[0, 0, 255]]"
  by (simp add: ref_eval)

lemma sobel_x_edge_row: "Sobel cv_ref [[0, 0, 255]] 1 0 3 = Some [[0, 1020, 0]]"
  by (simp add: cv_ref_def Sobel_ref_def kernels_3 corr_eval)

lemma sobel_y_edge_row: "Sobel cv_ref [[0, 0, 255]] 0 1 3 = Some [[0, 0, 0]]"
  by (simp add: cv_ref_def Sobel_ref_def kernels_3 corr_eval)

lemma magnitude_edge_row:
  "magnitude cv_ref (astype_float32 cv_ref [[0, 1020, 0]]) (astype_float32 cv_ref [[0, 0, 0]])
     = Some [[0, 1020, 0]]"
proof -
  have "sqrt (1020 * 1020) = \<bar>1020::real\<bar>"
    by (rule real_sqrt_abs2)
  then have "sqrt 1040400 = (1020::real)" by simp
  then show ?thesis by (simp add: magnitude_def astype_float32_def cv_ref_def)
qed

lemma normalize_edge_row: "normalize_minmax cv_ref [[0, 1020, 0]] 0 255 = Some [[0, 255, 0]]"
  by (simp add: normalize_minmax_def checked_div_def DBL_EPSILON_def cv_ref_def)

lemma astype_edge_row: "astype_uint8 [[0, 255, 0]] = [[0, 255, 0]]"
  by (simp add: astype_uint8_def trunc_real_def)

lemma sobel_both_edge_row:
  "run_sobel cv_ref (Color [[(0, 0, 0), (0, 0, 0), (255, 255, 255)]]) 3 (Some ''Both'')
     = Some (Gray [[0, 255, 0]])"
proof -
  have k: "py_odd 3 = 3" by (simp add: py_odd_def)
  show ?thesis
    unfolding run_sobel_Both gray_edge_row k
    by (simp add: sobel_x_edge_row sobel_y_edge_row magnitude_edge_row
        normalize_edge_row astype_edge_row)
qed

lemma canny_blurred_row:
  "run_canny cv_ref (Color [[(0, 0, 0), (0, 0, 0), (60, 60, 60), (0, 0, 0)]]) 100 200 2 0
     = Some (Gray [[0, 0, 0, 0]])"
  by (simp add: run_canny_def gaussian_blur_def ref_eval)

lemma canny_unblurred_row:
  "run_canny cv_ref (Color [[(0, 0, 0), (0, 0, 0), (60, 60, 60), (0, 0, 0)]]) 100 200 1 0
     = Some (Gray [[0, 255, 0, 0]])"
  by (simp add: run_canny_def gaussian_blur_def ref_eval)

lemma canny_two_rows:
  "run_canny cv_ref (Color [[(0, 0, 0), (0, 0, 0), (255, 255, 255)],
                            [(0, 0, 0), (0, 0, 0), (255, 255, 255)]]) 100 200 3 0
     = Some (Gray [[0, 255, 0], [0, 255, 0]])"
  by (simp add: run_canny_def gaussian_blur_def ref_eval)





lemma gray_corner:
  "cvtColor_BGR2GRAY cv_ref (Color [[(255, 255, 255), (0, 0, 0)], [(0, 0, 0), (0, 0, 0)]])
     = Some [[255, 0], [0, 0]]"
  by (simp add: ref_eval)

lemma laplacian_corner_gradient:
  "Laplacian cv_ref [[255, 0], [0, 0]] 3 = Some [[- 2040, 0], [0, 2040]]"
  by (simp add: ref_eval)

lemma laplacian_corner:
  "run_laplacian cv_ref (Color [[(255, 255, 255), (0, 0, 0)], [(0, 0, 0), (0, 0, 0)]]) 3
     = Some (Gray [[255, 0], [0, 255]])"
  unfolding run_laplacian_def gray_corner
  by (simp add: laplacian_corner_gradient py_odd_def convertScaleAbs_def saturate_u8_def
      cvRound_def)




lemma gray_uniform:
  "cvtColor_BGR2GRAY cv_ref (Color [[(10, 20, 30), (10, 20, 30)], [(10, 20, 30), (10, 20, 30)]])
     = Some [[22, 22], [22, 22]]"
  by (simp add: ref_eval)

lemma sobel_refuses_33: "Sobel cv_ref [[22, 22], [22, 22]] dx dy 33 = None"
  by (simp add: cv_ref_def Sobel_ref_def deriv_kernels_def)

lemma sobel_uniform_defined:
  "\<exists>gx gy.
     Sobel cv_ref (replicate 2 (replicate 2 (luma cv_ref (10, 20, 30)))) 1 0 (py_odd 5) = Some gx \<and>
     Sobel cv_ref (replicate 2 (replicate 2 (luma cv_ref (10, 20, 30)))) 0 1 (py_odd 5) = Some gy"
  by (simp add: cv_ref_def Sobel_ref_def deriv_kernels_def py_odd_def numeral_2_eq_2)

section \<open>Properties of the filter pipeline\<close>

text \<open>
  Claim C1. For every 3-channel 8-bit raster and every pair of thresholds, every pixel
  of the raster that \<^verbatim>\<open>run_canny\<close> returns is 0 or 255. The filter returns the output
  of the edge operator on the (possibly blurred) grey image as it is, so the property is
  the operator's contract \<open>canny_binary\<close> carried to the filter.
\<close>

theorem run_canny_binary:
  assumes "canny_binary cv"
    and "run_canny cv img low high ksize sigma = Some out"
  shows "\<exists>gray edges. Canny cv gray low high = Some edges \<and> out = Gray edges \<and> binary edges"
  using assms
  by (auto simp: run_canny_def canny_binary_def split: bind_splits if_splits)

theorem run_canny_binary_witness:
  "canny_binary cv_ref \<and>
   run_canny cv_ref (Color [[(0, 0, 0), (0, 0, 0), (255, 255, 255)],
                            [(0, 0, 0), (0, 0, 0), (255, 255, 255)]]) 100 200 3 0
     = Some (Gray [[0, 255, 0], [0, 255, 0]]) \<and>
   binary [[0, 255, 0], [0, 255, 0]]"
proof -
  from run_canny_binary [OF canny_binary_ref canny_two_rows]
  have "binary [[0, 255, 0], [0, 255, 0]]" by blast
  with canny_binary_ref canny_two_rows show ?thesis by simp
qed

text \<open>
  Claim C7. In \<^verbatim>\<open>run_canny\<close> the Gaussian blur is applied to the grey image if and
  only if the kernel size is above 1 or sigma is above 0. When the condition fails the
  edge operator gets the grey image itself and the result does not depend on the blur
  operator; when it holds the edge operator gets the blurred image, computed with the
  kernel size made odd on both axes and the same sigma on both axes.
\<close>

theorem run_canny_blur:
  "(\<not> (ksize > 1 \<or> sigma > 0) \<longrightarrow>
      run_canny cv img low high ksize sigma =
        do { gray \<leftarrow> cvtColor_BGR2GRAY cv img;
             edges \<leftarrow> Canny cv gray low high;
             Some (Gray edges) } \<and>
      run_canny (cv\<lparr>GaussianBlur := B\<rparr>) img low high ksize sigma =
        run_canny cv img low high ksize sigma) \<and>
   (ksize > 1 \<or> sigma > 0 \<longrightarrow>
      run_canny cv img low high ksize sigma =
        do { gray \<leftarrow> cvtColor_BGR2GRAY cv img;
             blurred \<leftarrow> GaussianBlur cv gray (py_odd ksize, py_odd ksize) sigma sigma;
             edges \<leftarrow> Canny cv blurred low high;
             Some (Gray edges) })"
proof -
  have g: "cvtColor_BGR2GRAY (cv\<lparr>GaussianBlur := B\<rparr>) img = cvtColor_BGR2GRAY cv img"
    by (cases img) simp_all
  show ?thesis
    by (simp add: run_canny_def gaussian_blur_def Let_def g)
qed

theorem run_canny_blur_witness:
  "\<not> ((1::int) > 1 \<or> (0::real) > 0) \<and>
   run_canny cv_ref (Color [[(0, 0, 0), (0, 0, 0), (60, 60, 60), (0, 0, 0)]]) 100 200 1 0
     = Some (Gray [[0, 255, 0, 0]]) \<and>
   run_canny (cv_ref\<lparr>GaussianBlur := \<lambda>src ks sx sy. None\<rparr>)
       (Color [[(0, 0, 0), (0, 0, 0), (60, 60, 60), (0, 0, 0)]]) 100 200 1 0
     = Some (Gray [[0, 255, 0, 0]]) \<and>
   ((2::int) > 1 \<or> (0::real) > 0) \<and>
   run_canny cv_ref (Color [[(0, 0, 0), (0, 0, 0), (60, 60, 60), (0, 0, 0)]]) 100 200 2 0
     = Some (Gray [[0, 0, 0, 0]]) \<and>
   (GaussianBlur cv_ref [[0, 0, 60, 0]] (py_odd 2, py_odd 2) 0 0 \<bind>
      (\<lambda>blurred. Canny cv_ref blurred 100 200 \<bind> (\<lambda>edges. Some (Gray edges))))
     = Some (Gray [[0, 0, 0, 0]])"
proof -
  let ?img = "Color [[(0, 0, 0), (0, 0, 0), (60, 60, 60), (0, 0, 0)]]"
  have g: "cvtColor_BGR2GRAY cv_ref ?img = Some [[0, 0, 60, 0]]"
    by (simp add: ref_eval)
  from run_canny_blur [of 1 0 cv_ref ?img 100 200 "\<lambda>src ks sx sy. None"]
  have a: "run_canny (cv_ref\<lparr>GaussianBlur := \<lambda>src ks sx sy. None\<rparr>) ?img 100 200 1 0
             = run_canny cv_ref ?img 100 200 1 0"
    by simp
  from run_canny_blur [of 2 0 cv_ref ?img 100 200]
  have b: "run_canny cv_ref ?img 100 200 2 0 =
      (GaussianBlur cv_ref [[0, 0, 60, 0]] (py_odd 2, py_odd 2) 0 0 \<bind>
        (\<lambda>blurred. Canny cv_ref blurred 100 200 \<bind> (\<lambda>edges. Some (Gray edges))))"
    unfolding g by simp
  show ?thesis
    using a b by (simp add: canny_unblurred_row canny_blurred_row)
qed

text \<open>
  Claim C8. For every 3-channel input raster and every filter (Canny, Sobel in any
  direction, Laplacian) the raster that the filter returns has the height and the width
  of the input: it has as many rows, and each row is as long as the input's. The
  neighbourhood operators are assumed to keep the shape (\<open>keeps_shape\<close>).
\<close>

theorem filters_keep_shape:
  assumes "keeps_shape cv"
  shows "(run_canny cv (Color px) low high ksize sigma = Some out \<longrightarrow>
            (\<exists>g. out = Gray g \<and> length g = length px \<and> map length g = map length px)) \<and>
         (run_sobel cv (Color px) ksize direction = Some out \<longrightarrow>
            (\<exists>g. out = Gray g \<and> length g = length px \<and> map length g = map length px)) \<and>
         (run_laplacian cv (Color px) ksize = Some out \<longrightarrow>
            (\<exists>g. out = Gray g \<and> length g = length px \<and> map length g = map length px))"
proof -
  have blur: "GaussianBlur cv src ks sx sy = Some dst \<Longrightarrow> map length dst = map length src"
    for src ks sx sy dst using assms unfolding keeps_shape_def by blast
  have canny: "Canny cv src t1 t2 = Some dst \<Longrightarrow> map length dst = map length src"
    for src t1 t2 dst using assms unfolding keeps_shape_def by blast
  have sobel: "Sobel cv src dx dy k = Some dst \<Longrightarrow> map length dst = map length src"
    for src dx dy k dst using assms unfolding keeps_shape_def by blast
  have lap: "Laplacian cv src k = Some dst \<Longrightarrow> map length dst = map length src"
    for src k dst using assms unfolding keeps_shape_def by blast
  have len: "length g = length px" if "map length g = map length px" for g :: "u8 raster"
    using that by (metis length_map)
  have c: "\<exists>g. out = Gray g \<and> map length g = map length px"
    if "run_canny cv (Color px) low high ksize sigma = Some out"
  proof -
    from that obtain gray gray' edges where
      g: "gray = map (map (luma cv)) px"
      and b: "(if ksize > 1 \<or> sigma > 0 then gaussian_blur cv gray ksize sigma else Some gray)
                = Some gray'"
      and e: "Canny cv gray' low high = Some edges" and o: "out = Gray edges"
      by (auto simp: run_canny_def split: bind_splits if_splits)
    have "map length gray' = map length gray"
      using b blur by (auto simp: gaussian_blur_def Let_def split: if_splits)
    with canny [OF e] g o show ?thesis by (simp add: o_def)
  qed
  have s: "\<exists>g. out = Gray g \<and> map length g = map length px"
    if r: "run_sobel cv (Color px) ksize direction = Some out"
  proof -
    define gray where "gray = map (map (luma cv)) px"
    define d where "d = capitalize (or_default direction ''Both'')"
    define dx where "dx = (d = ''X'' \<or> d = ''Both'')"
    define dy where "dy = (d = ''Y'' \<or> d = ''Both'')"
    from r obtain gx gy where
      gx: "(if dx then Sobel cv gray 1 0 (py_odd ksize) else Some (zeros_like gray)) = Some gx"
      and gy: "(if dy then Sobel cv gray 0 1 (py_odd ksize) else Some (zeros_like gray)) = Some gy"
      and res: "(if d = ''Both'' then do {
                   mag \<leftarrow> magnitude cv (astype_float32 cv gx) (astype_float32 cv gy);
                   mag \<leftarrow> normalize_minmax cv mag 0 255;
                   Some (Gray (astype_uint8 mag)) }
                 else Some (Gray (convertScaleAbs (if dx then gx else gy)))) = Some out"
      unfolding run_sobel_def gray_def d_def dx_def dy_def
      by (auto simp: Let_def split: bind_splits if_splits)
    have sx: "map length gx = map length gray"
      using gx sobel by (auto simp: zeros_like_shape split: if_splits)
    have sy: "map length gy = map length gray"
      using gy sobel by (auto simp: zeros_like_shape split: if_splits)
    have "\<exists>g. out = Gray g \<and> map length g = map length gray"
    proof (cases "d = ''Both''")
      case True
      with res obtain mag nrm where
        m: "magnitude cv (astype_float32 cv gx) (astype_float32 cv gy) = Some mag"
        and n: "normalize_minmax cv mag 0 255 = Some nrm"
        and o: "out = Gray (astype_uint8 nrm)"
        by (auto split: bind_splits)
      from magnitude_shape [OF m] normalize_shape [OF n] sx o show ?thesis
        by (simp add: astype_uint8_shape astype_float32_shape)
    next
      case False
      with res have "out = Gray (convertScaleAbs (if dx then gx else gy))" by simp
      with sx sy show ?thesis by (simp add: convertScaleAbs_shape)
    qed
    then show ?thesis by (simp add: gray_def o_def)
  qed
  have l: "\<exists>g. out = Gray g \<and> map length g = map length px"
    if "run_laplacian cv (Color px) ksize = Some out"
  proof -
    from that obtain lp where
      "Laplacian cv (map (map (luma cv)) px) (py_odd ksize) = Some lp"
      and "out = Gray (convertScaleAbs lp)"
      by (auto simp: run_laplacian_def Let_def split: bind_splits if_splits)
    with lap show ?thesis by (simp add: convertScaleAbs_shape o_def)
  qed
  show ?thesis using c s l len by blast
qed

theorem filters_keep_shape_witness:
  "keeps_shape cv_ref \<and>
   run_canny cv_ref (Color [[(0, 0, 0), (0, 0, 0), (255, 255, 255)],
                            [(0, 0, 0), (0, 0, 0), (255, 255, 255)]]) 100 200 3 0
     = Some (Gray [[0, 255, 0], [0, 255, 0]]) \<and>
   run_sobel cv_ref (Color [[(0, 0, 0), (0, 0, 0), (255, 255, 255)]]) 3 (Some ''Both'')
     = Some (Gray [[0, 255, 0]]) \<and>
   run_laplacian cv_ref (Color [[(255, 255, 255), (0, 0, 0)], [(0, 0, 0), (0, 0, 0)]]) 3
     = Some (Gray [[255, 0], [0, 255]]) \<and>
   map length [[0, 255, 0], [0, 255, 0 :: u8]]
     = map length [[(0, 0, 0), (0, 0, 0), (255, 255, 255)],
                   [(0, 0, 0), (0, 0, 0), (255, 255, 255 :: u8)]] \<and>
   map length [[0, 255, 0 :: u8]] = map length [[(0, 0, 0), (0, 0, 0), (255, 255, 255 :: u8)]] \<and>
   map length [[255, 0], [0, 255 :: u8]]
     = map length [[(255, 255, 255), (0, 0, 0)], [(0, 0, 0), (0, 0, 0 :: u8)]]"
proof -
  note ks = filters_keep_shape [OF keeps_shape_ref]
  from ks [of "[[(0, 0, 0), (0, 0, 0), (255, 255, 255)], [(0, 0, 0), (0, 0, 0), (255, 255, 255)]]"
      100 200 3 0 "Gray [[0, 255, 0], [0, 255, 0]]"] canny_two_rows
  have c: "map length [[0, 255, 0], [0, 255, 0 :: u8]]
     = map length [[(0, 0, 0), (0, 0, 0), (255, 255, 255)],
                   [(0, 0, 0), (0, 0, 0), (255, 255, 255 :: u8)]]"
    by simp
  from ks [of "[[(0, 0, 0), (0, 0, 0), (255, 255, 255)]]" _ _ 3 _ "Gray [[0, 255, 0]]"
      "Some ''Both''"] sobel_both_edge_row
  have s: "map length [[0, 255, 0 :: u8]]
     = map length [[(0, 0, 0), (0, 0, 0), (255, 255, 255 :: u8)]]"
    by simp
  from ks [of "[[(255, 255, 255), (0, 0, 0)], [(0, 0, 0), (0, 0, 0)]]" _ _ 3 _
      "Gray [[255, 0], [0, 255]]"] laplacian_corner
  have l: "map length [[255, 0], [0, 255 :: u8]]
     = map length [[(255, 255, 255), (0, 0, 0)], [(0, 0, 0), (0, 0, 0 :: u8)]]"
    by simp
  show ?thesis
    using keeps_shape_ref canny_two_rows sobel_both_edge_row laplacian_corner c s l
    by blast
qed

text \<open>
  Claim C4, as amended. For every uniform 3-channel raster of positive height and width
  and every kernel size for which the two gradient calls return, \<^verbatim>\<open>run_sobel\<close> with
  direction \<^verbatim>\<open>'Both'\<close> returns the all-zero raster of the same size: the magnitude is
  uniform, so the normalization finds a range that is not above \<^verbatim>\<open>DBL_EPSILON\<close>,
  takes the scale 0 without dividing, and returns the all-zero array. When a gradient
  call raises, the filter raises. The gradient of a uniform image is assumed uniform
  (\<open>sobel_uniform\<close>) and rounding is assumed to keep 0 (\<open>rounds_zero\<close>).
\<close>

theorem sobel_both_uniform:
  assumes "sobel_uniform cv" and "rounds_zero cv" and "0 < h" and "0 < w"
  shows "(Sobel cv (replicate h (replicate w (luma cv c))) 1 0 (py_odd ksize) = Some gx \<and>
          Sobel cv (replicate h (replicate w (luma cv c))) 0 1 (py_odd ksize) = Some gy \<longrightarrow>
            run_sobel cv (Color (replicate h (replicate w c))) ksize (Some ''Both'')
              = Some (Gray (replicate h (replicate w 0))) \<and>
            (\<exists>mag. magnitude cv (astype_float32 cv gx) (astype_float32 cv gy) = Some mag \<and>
               normalize_minmax cv mag 0 255 = Some (replicate h (replicate w 0)))) \<and>
         (Sobel cv (replicate h (replicate w (luma cv c))) 1 0 (py_odd ksize) = None \<or>
          Sobel cv (replicate h (replicate w (luma cv c))) 0 1 (py_odd ksize) = None \<longrightarrow>
            run_sobel cv (Color (replicate h (replicate w c))) ksize (Some ''Both'') = None)"
proof -
  let ?gray = "replicate h (replicate w (luma cv c))"
  let ?k = "py_odd ksize"
  have ne: "concat (replicate h (replicate w c)) \<noteq> []"
    using assms(3,4) by (simp add: concat_uniform)
  have gray: "cvtColor_BGR2GRAY cv (Color (replicate h (replicate w c))) = Some ?gray"
    using ne by simp
  note run = run_sobel_Both [of cv "Color (replicate h (replicate w c))" ksize, unfolded gray]
  have fails: "run_sobel cv (Color (replicate h (replicate w c))) ksize (Some ''Both'') = None"
    if "Sobel cv ?gray 1 0 ?k = None \<or> Sobel cv ?gray 0 1 ?k = None"
    using that unfolding run by (cases "Sobel cv ?gray 1 0 ?k") auto
  have works: "run_sobel cv (Color (replicate h (replicate w c))) ksize (Some ''Both'')
              = Some (Gray (replicate h (replicate w 0))) \<and>
            (\<exists>mag. magnitude cv (astype_float32 cv gx) (astype_float32 cv gy) = Some mag \<and>
               normalize_minmax cv mag 0 255 = Some (replicate h (replicate w 0)))"
    if sx: "Sobel cv ?gray 1 0 ?k = Some gx" and sy: "Sobel cv ?gray 0 1 ?k = Some gy"
  proof -
    from assms(1) sx obtain a where a: "gx = replicate h (replicate w a)"
      unfolding sobel_uniform_def by blast
    from assms(1) sy obtain b where b: "gy = replicate h (replicate w b)"
      unfolding sobel_uniform_def by blast
    obtain m where m: "magnitude cv (astype_float32 cv gx) (astype_float32 cv gy)
        = Some (replicate h (replicate w m))"
      unfolding a b astype_float32_uniform using magnitude_uniform by blast
    note n = normalize_uniform [OF assms(2,3,4), of m]
    show ?thesis
      unfolding run by (simp add: sx sy m n astype_uint8_zero)
  qed
  show ?thesis using fails works by blast
qed

theorem sobel_both_uniform_witness:
  "sobel_uniform cv_ref \<and> rounds_zero cv_ref \<and> (0::nat) < 2 \<and>
   run_sobel cv_ref (Color [[(10, 20, 30), (10, 20, 30)], [(10, 20, 30), (10, 20, 30)]]) 5
       (Some ''Both'')
     = Some (Gray [[0, 0], [0, 0]])"
proof -
  have pos: "(0::nat) < 2" by simp
  have r: "replicate 2 (replicate 2 x) = [[x, x], [x, x]]" for x :: 'a
    by (simp add: numeral_2_eq_2)
  from sobel_uniform_defined obtain gx gy where
    "Sobel cv_ref (replicate 2 (replicate 2 (luma cv_ref (10, 20, 30)))) 1 0 (py_odd 5) = Some gx"
    "Sobel cv_ref (replicate 2 (replicate 2 (luma cv_ref (10, 20, 30)))) 0 1 (py_odd 5) = Some gy"
    by blast
  with sobel_both_uniform [OF sobel_uniform_ref rounds_zero_ref pos pos, of "(10, 20, 30)" 5 gx gy]
  have "run_sobel cv_ref (Color (replicate 2 (replicate 2 (10, 20, 30)))) 5 (Some ''Both'')
     = Some (Gray (replicate 2 (replicate 2 0)))"
    by blast
  then show ?thesis
    using sobel_uniform_ref rounds_zero_ref by (simp add: r)
qed

text \<open>
  Claim C4, as stated, fails for a kernel size that the gradient operator refuses: the
  kernel size 33 is odd already, the operator accepts no size above 31, and the filter
  raises on a uniform 2 by 2 raster instead of returning the all-zero raster.
\<close>

theorem sobel_both_uniform_counterexample:
  "py_odd 33 = 33 \<and>
   run_sobel cv_ref (Color [[(10, 20, 30), (10, 20, 30)], [(10, 20, 30), (10, 20, 30)]]) 33
       (Some ''Both'') = None \<and>
   run_sobel cv_ref (Color [[(10, 20, 30), (10, 20, 30)], [(10, 20, 30), (10, 20, 30)]]) 33
       (Some ''Both'') \<noteq> Some (Gray [[0, 0], [0, 0]])"
proof -
  have k: "py_odd 33 = 33" by (simp add: py_odd_def)
  have "run_sobel cv_ref (Color [[(10, 20, 30), (10, 20, 30)], [(10, 20, 30), (10, 20, 30)]]) 33
       (Some ''Both'') = None"
    unfolding run_sobel_Both gray_uniform k by (simp add: sobel_refuses_33)
  with k show ?thesis by simp
qed




text \<open>
  Claim C2, as amended. Direction matching ignores case: two direction strings with the
  same lower-case form give the same result. A non-empty direction that is not a case
  variant of \<^verbatim>\<open>'X'\<close>, \<^verbatim>\<open>'Y'\<close> or \<^verbatim>\<open>'Both'\<close> computes no gradient: the filter returns
  the all-zero raster of the shape of the grey image (and no raster when the grey
  conversion raises).
\<close>

theorem sobel_direction_matching:
  "(map lower_char d = map lower_char d' \<longrightarrow>
      run_sobel cv img ksize (Some d) = run_sobel cv img ksize (Some d')) \<and>
   (d \<noteq> [] \<and> map lower_char d \<noteq> ''x'' \<and> map lower_char d \<noteq> ''y'' \<and>
    map lower_char d \<noteq> ''both'' \<longrightarrow>
      run_sobel cv img ksize (Some d) =
        map_option (\<lambda>gray. Gray (map (map (\<lambda>_. 0)) gray)) (cvtColor_BGR2GRAY cv img))"
proof (intro conjI impI)
  assume eq: "map lower_char d = map lower_char d'"
  then have e: "d = [] \<longleftrightarrow> d' = []" by (metis map_is_Nil_conv)
  have "capitalize (or_default (Some d) ''Both'') = capitalize (or_default (Some d') ''Both'')"
    using e capitalize_cong [OF eq] by simp
  then show "run_sobel cv img ksize (Some d) = run_sobel cv img ksize (Some d')"
    by (simp add: run_sobel_def)
next
  assume a: "d \<noteq> [] \<and> map lower_char d \<noteq> ''x'' \<and> map lower_char d \<noteq> ''y'' \<and>
    map lower_char d \<noteq> ''both''"
  then have cap: "capitalize (or_default (Some d) ''Both'') = capitalize d" by simp
  have n: "capitalize d \<noteq> ''X''" "capitalize d \<noteq> ''Y''" "capitalize d \<noteq> ''Both''"
    using a by (simp_all add: capitalize_eq_iff)
  show "run_sobel cv img ksize (Some d) =
        map_option (\<lambda>gray. Gray (map (map (\<lambda>_. 0)) gray)) (cvtColor_BGR2GRAY cv img)"
    unfolding run_sobel_def cap
    by (cases "cvtColor_BGR2GRAY cv img") (simp_all add: Let_def n convertScaleAbs_zeros)
qed

theorem sobel_direction_matching_witness:
  "map lower_char ''bOTH'' = map lower_char ''Both'' \<and>
   run_sobel cv_ref (Color [[(0, 0, 0), (0, 0, 0), (255, 255, 255)]]) 3 (Some ''bOTH'')
     = Some (Gray [[0, 255, 0]]) \<and>
   ''Z'' \<noteq> [] \<and> map lower_char ''Z'' \<noteq> ''x'' \<and> map lower_char ''Z'' \<noteq> ''y'' \<and>
   map lower_char ''Z'' \<noteq> ''both'' \<and>
   run_sobel cv_ref (Color [[(0, 0, 0), (0, 0, 0), (255, 255, 255)]]) 3 (Some ''Z'')
     = Some (Gray [[0, 0, 0]])"
proof -
  let ?img = "Color [[(0, 0, 0), (0, 0, 0), (255, 255, 255)]]"
  have e: "map lower_char ''bOTH'' = map lower_char ''Both''"
    by (simp add: char_eval)
  have z: "''Z'' \<noteq> [] \<and> map lower_char ''Z'' \<noteq> ''x'' \<and> map lower_char ''Z'' \<noteq> ''y'' \<and>
           map lower_char ''Z'' \<noteq> ''both''"
    by (simp add: char_eval)
  from sobel_direction_matching [of "''bOTH''" "''Both''" cv_ref ?img 3] e
  have a: "run_sobel cv_ref ?img 3 (Some ''bOTH'') = Some (Gray [[0, 255, 0]])"
    by (simp only: sobel_both_edge_row)
  from sobel_direction_matching [of "''Z''" _ cv_ref ?img 3] z
  have b: "run_sobel cv_ref ?img 3 (Some ''Z'') = Some (Gray [[0, 0, 0]])"
    by (simp add: gray_edge_row)
  from e a z b show ?thesis
    by (elim conjE) (intro conjI; assumption)
qed

text \<open>
  Claim C2, as stated, fails: on a one-row raster with a vertical edge the direction
  \<^verbatim>\<open>'Z'\<close>, which is no case variant of the three names, gives the all-zero raster,
  and the direction \<^verbatim>\<open>'Both'\<close> gives a raster with a pixel of 255.
\<close>

theorem sobel_unrecognized_counterexample:
  "map lower_char ''Z'' \<noteq> map lower_char ''X'' \<and>
   map lower_char ''Z'' \<noteq> map lower_char ''Y'' \<and>
   map lower_char ''Z'' \<noteq> map lower_char ''Both'' \<and>
   run_sobel cv_ref (Color [[(0, 0, 0), (0, 0, 0), (255, 255, 255)]]) 3 (Some ''Z'')
     = Some (Gray [[0, 0, 0]]) \<and>
   run_sobel cv_ref (Color [[(0, 0, 0), (0, 0, 0), (255, 255, 255)]]) 3 (Some ''Both'')
     = Some (Gray [[0, 255, 0]]) \<and>
   run_sobel cv_ref (Color [[(0, 0, 0), (0, 0, 0), (255, 255, 255)]]) 3 (Some ''Z'')
     \<noteq> run_sobel cv_ref (Color [[(0, 0, 0), (0, 0, 0), (255, 255, 255)]]) 3 (Some ''Both'')"
proof -
  have z: "run_sobel cv_ref (Color [[(0, 0, 0), (0, 0, 0), (255, 255, 255)]]) 3 (Some ''Z'')
     = Some (Gray [[0, 0, 0]])"
    by (simp add: run_sobel_def gray_edge_row char_eval zeros_like_def convertScaleAbs_def
        saturate_u8_def cvRound_def)
  have l: "map lower_char ''Z'' \<noteq> map lower_char ''X'' \<and>
   map lower_char ''Z'' \<noteq> map lower_char ''Y'' \<and>
   map lower_char ''Z'' \<noteq> map lower_char ''Both''"
    by (simp add: char_eval)
  show ?thesis
    using l by (simp add: z sobel_both_edge_row)
qed

text \<open>
  Claim C10. A direction that is \<^verbatim>\<open>None\<close> or the empty string makes \<^verbatim>\<open>run_sobel\<close>
  behave as with the direction \<^verbatim>\<open>'Both'\<close>: the default replaces the falsy value
  before the string is capitalized and matched.
\<close>

theorem sobel_falsy_direction:
  "run_sobel cv img ksize None = run_sobel cv img ksize (Some ''Both'') \<and>
   run_sobel cv img ksize (Some '''') = run_sobel cv img ksize (Some ''Both'')"
  by (simp add: run_sobel_def)

theorem sobel_falsy_direction_witness:
  "run_sobel cv_ref (Color [[(0, 0, 0), (0, 0, 0), (255, 255, 255)]]) 3 None
     = Some (Gray [[0, 255, 0]]) \<and>
   run_sobel cv_ref (Color [[(0, 0, 0), (0, 0, 0), (255, 255, 255)]]) 3 (Some '''')
     = Some (Gray [[0, 255, 0]])"
  using sobel_falsy_direction [of cv_ref "Color [[(0, 0, 0), (0, 0, 0), (255, 255, 255)]]" 3]
  by (simp add: sobel_both_edge_row)

end
